theory Spec2Isabelle
  imports Complex_Main
begin

section \<open>JavaScript values, exceptions and \<open>try / catch / finally\<close>\<close>

text \<open>
  The three pages of the front end (\<open>BacktestPage.tsx\<close>, \<open>AnalysisPage.tsx\<close>,
  \<open>ConfigPage.tsx\<close>) are React components: their state lives in \<open>useState\<close> cells,
  and their handlers are \<open>async\<close> functions of the shape

  \<^verbatim>\<open>setLoading(true); try { await ...; ... } catch (error) { ... } finally { setLoading(false); }\<close>

  A handler is modelled as a function from the component's state to a completion: the
  state it leaves, tagged with whether the handler ended normally or threw. A JavaScript
  \<open>number\<close> is modelled as a real (decimal literals are read exactly), a \<open>string\<close> as a
  list of bytes (non-ASCII text as its UTF-8 encoding).
\<close>

datatype js_error = Error string

datatype 's completion = Normal 's | Throw js_error 's

fun state_of :: "'s completion \<Rightarrow> 's" where
  "state_of (Normal s) = s"
| "state_of (Throw e s) = s"

fun is_Normal :: "'s completion \<Rightarrow> bool" where
  "is_Normal (Normal s) = True"
| "is_Normal (Throw e s) = False"

text \<open>
  \<open>try body catch (error) handler finally fin\<close>: the handler runs only when the body
  throws; \<open>fin\<close> runs on every path; an exception of the handler is rethrown after
  \<open>fin\<close>, unless \<open>fin\<close> throws itself.
\<close>

definition try_catch_finally ::
  "('s \<Rightarrow> 's completion) \<Rightarrow> (js_error \<Rightarrow> 's \<Rightarrow> 's completion) \<Rightarrow> ('s \<Rightarrow> 's completion)
     \<Rightarrow> 's \<Rightarrow> 's completion" where
  "try_catch_finally body handler fin s =
     (case body s of
        Normal s1 \<Rightarrow> fin s1
      | Throw e s1 \<Rightarrow>
          (case handler e s1 of
             Normal s2 \<Rightarrow> fin s2
           | Throw e2 s2 \<Rightarrow>
               (case fin s2 of
                  Normal s3 \<Rightarrow> Throw e2 s3
                | Throw e3 s3 \<Rightarrow> Throw e3 s3)))"

text \<open>
  The outcome of an awaited promise. \<open>timer_promise ms\<close> is
  \<open>new Promise(resolve => setTimeout(resolve, ms))\<close>, which can only resolve.
\<close>

datatype promise = Resolved | Rejected js_error

definition timer_promise :: "nat \<Rightarrow> promise" where
  "timer_promise ms = Resolved"

text \<open>
  A toast, as the object passed to \<open>toast({title, description, variant})\<close> of
  \<open>useToast\<close>; \<open>variant\<close> is absent from the success toasts. The toasts a page has
  emitted are kept, in order, in its state.
\<close>

record Toast =
  title :: string
  description :: string
  variant :: "string option"

section \<open>ConfigPage.tsx\<close>

text \<open>\<open>interface ApiKeys\<close> (lines 8-12) and \<open>keyof ApiKeys\<close>.\<close>

record ApiKeys =
  openai :: string
  anthropic :: string
  coinmarketcap :: string

datatype ApiKeys_key = Key_openai | Key_anthropic | Key_coinmarketcap

fun get_key :: "ApiKeys_key \<Rightarrow> ApiKeys \<Rightarrow> string" where
  "get_key Key_openai ks = openai ks"
| "get_key Key_anthropic ks = anthropic ks"
| "get_key Key_coinmarketcap ks = coinmarketcap ks"

text \<open>The object \<open>{...prev, [key]: v}\<close>.\<close>

fun set_key :: "ApiKeys_key \<Rightarrow> string \<Rightarrow> ApiKeys \<Rightarrow> ApiKeys" where
  "set_key Key_openai v prev = prev\<lparr>openai := v\<rparr>"
| "set_key Key_anthropic v prev = prev\<lparr>anthropic := v\<rparr>"
| "set_key Key_coinmarketcap v prev = prev\<lparr>coinmarketcap := v\<rparr>"

record ConfigPage =
  loading :: bool
  apiKeys :: ApiKeys
  toasts :: "Toast list"

definition initial_ConfigPage :: ConfigPage where
  "initial_ConfigPage =
     \<lparr>ConfigPage.loading = False,
      apiKeys = \<lparr>openai = '''', anthropic = '''', coinmarketcap = ''''\<rparr>,
      toasts = []\<rparr>"

text \<open>
  \<open>handleInputChange\<close> (lines 23-28): \<open>key\<close> is the field, \<open>v\<close> is
  \<open>e.target.value\<close>.
\<close>

definition handleInputChange :: "ApiKeys_key \<Rightarrow> string \<Rightarrow> ConfigPage \<Rightarrow> ConfigPage" where
  "handleInputChange key v s = s\<lparr>apiKeys := set_key key v (apiKeys s)\<rparr>"

text \<open>The four toasts of the page; their texts are UTF-8.\<close>

definition connection_ok_toast :: Toast where
  "connection_ok_toast =
     \<lparr>title =
        [CHR 0xE8, CHR 0xBF, CHR 0x9E, CHR 0xE6, CHR 0x8E, CHR 0xA5, CHR 0xE6, CHR 0xB5, CHR 0x8B,
         CHR 0xE8, CHR 0xAF, CHR 0x95, CHR 0xE6, CHR 0x88, CHR 0x90, CHR 0xE5, CHR 0x8A, CHR 0x9F],
      description =
        [CHR 0xE6, CHR 0x89, CHR 0x80, CHR 0xE6, CHR 0x9C, CHR 0x89, CHR 0x41, CHR 0x50, CHR 0x49,
         CHR 0xE5, CHR 0xAF, CHR 0x86, CHR 0xE9, CHR 0x92, CHR 0xA5, CHR 0xE9, CHR 0xAA, CHR 0x8C,
         CHR 0xE8, CHR 0xAF, CHR 0x81, CHR 0xE9, CHR 0x80, CHR 0x9A, CHR 0xE8, CHR 0xBF, CHR 0x87],
      variant = None\<rparr>"

definition connection_failed_toast :: Toast where
  "connection_failed_toast =
     \<lparr>title =
        [CHR 0xE8, CHR 0xBF, CHR 0x9E, CHR 0xE6, CHR 0x8E, CHR 0xA5, CHR 0xE6, CHR 0xB5, CHR 0x8B,
         CHR 0xE8, CHR 0xAF, CHR 0x95, CHR 0xE5, CHR 0xA4, CHR 0xB1, CHR 0xE8, CHR 0xB4, CHR 0xA5],
      description =
        [CHR 0xE8, CHR 0xAF, CHR 0xB7, CHR 0xE6, CHR 0xA3, CHR 0x80, CHR 0xE6, CHR 0x9F, CHR 0xA5,
         CHR 0x41, CHR 0x50, CHR 0x49, CHR 0xE5, CHR 0xAF, CHR 0x86, CHR 0xE9, CHR 0x92, CHR 0xA5,
         CHR 0xE6, CHR 0x98, CHR 0xAF, CHR 0xE5, CHR 0x90, CHR 0xA6, CHR 0xE6, CHR 0xAD, CHR 0xA3,
         CHR 0xE7, CHR 0xA1, CHR 0xAE],
      variant = Some ''destructive''\<rparr>"

definition config_saved_toast :: Toast where
  "config_saved_toast =
     \<lparr>title =
        [CHR 0xE9, CHR 0x85, CHR 0x8D, CHR 0xE7, CHR 0xBD, CHR 0xAE, CHR 0xE4, CHR 0xBF, CHR 0x9D,
         CHR 0xE5, CHR 0xAD, CHR 0x98, CHR 0xE6, CHR 0x88, CHR 0x90, CHR 0xE5, CHR 0x8A, CHR 0x9F],
      description =
        [CHR 0x41, CHR 0x50, CHR 0x49, CHR 0xE5, CHR 0xAF, CHR 0x86, CHR 0xE9, CHR 0x92, CHR 0xA5,
         CHR 0xE5, CHR 0xB7, CHR 0xB2, CHR 0xE6, CHR 0x9B, CHR 0xB4, CHR 0xE6, CHR 0x96, CHR 0xB0],
      variant = None\<rparr>"

definition config_failed_toast :: Toast where
  "config_failed_toast =
     \<lparr>title =
        [CHR 0xE9, CHR 0x85, CHR 0x8D, CHR 0xE7, CHR 0xBD, CHR 0xAE, CHR 0xE4, CHR 0xBF, CHR 0x9D,
         CHR 0xE5, CHR 0xAD, CHR 0x98, CHR 0xE5, CHR 0xA4, CHR 0xB1, CHR 0xE8, CHR 0xB4, CHR 0xA5],
      description =
        [CHR 0xE8, CHR 0xAF, CHR 0xB7, CHR 0xE7, CHR 0xA8, CHR 0x8D, CHR 0xE5, CHR 0x90, CHR 0x8E,
         CHR 0xE9, CHR 0x87, CHR 0x8D, CHR 0xE8, CHR 0xAF, CHR 0x95],
      variant = Some ''destructive''\<rparr>"

definition emit_toast :: "Toast \<Rightarrow> ConfigPage \<Rightarrow> ConfigPage completion" where
  "emit_toast t s = Normal (s\<lparr>toasts := toasts s @ [t]\<rparr>)"

definition ConfigPage_finally :: "ConfigPage \<Rightarrow> ConfigPage completion" where
  "ConfigPage_finally s = Normal (s\<lparr>ConfigPage.loading := False\<rparr>)"

text \<open>\<open>testConnection\<close> (lines 30-48), with the outcome of its awaited promise as a parameter.\<close>

definition testConnection_body :: "promise \<Rightarrow> ConfigPage \<Rightarrow> ConfigPage completion" where
  "testConnection_body p s =
     (case p of
        Rejected e \<Rightarrow> Throw e s
      | Resolved \<Rightarrow> emit_toast connection_ok_toast s)"

definition testConnection_on :: "promise \<Rightarrow> ConfigPage \<Rightarrow> ConfigPage completion" where
  "testConnection_on p s =
     try_catch_finally (testConnection_body p) (\<lambda>error. emit_toast connection_failed_toast)
       ConfigPage_finally (s\<lparr>ConfigPage.loading := True\<rparr>)"

text \<open>\<open>testConnection\<close> as written: the awaited promise is the 1.5-second timer.\<close>

definition testConnection :: "ConfigPage \<Rightarrow> ConfigPage completion" where
  "testConnection s = testConnection_on (timer_promise 1500) s"

text \<open>\<open>saveConfig\<close> (lines 50-68), likewise, with the one-second timer.\<close>

definition saveConfig_body :: "promise \<Rightarrow> ConfigPage \<Rightarrow> ConfigPage completion" where
  "saveConfig_body p s =
     (case p of
        Rejected e \<Rightarrow> Throw e s
      | Resolved \<Rightarrow> emit_toast config_saved_toast s)"

definition saveConfig_on :: "promise \<Rightarrow> ConfigPage \<Rightarrow> ConfigPage completion" where
  "saveConfig_on p s =
     try_catch_finally (saveConfig_body p) (\<lambda>error. emit_toast config_failed_toast)
       ConfigPage_finally (s\<lparr>ConfigPage.loading := True\<rparr>)"

definition saveConfig :: "ConfigPage \<Rightarrow> ConfigPage completion" where
  "saveConfig s = saveConfig_on (timer_promise 1000) s"

section \<open>AnalysisPage.tsx\<close>

text \<open>\<open>interface MarketData\<close> and \<open>interface AgentAnalysis\<close> (lines 9-19).\<close>

record MarketData =
  price :: real
  change24h :: real
  volume :: real

record AgentAnalysis =
  title :: string
  content :: string
  loading :: bool

text \<open>The state cells of the page (lines 23-39), its toasts and the console.\<close>

record AnalysisPage =
  cryptocurrencies :: "(string \<times> string) list"
  selectedCrypto :: string
  marketData :: MarketData
  agents :: "AgentAnalysis list"
  loading :: bool
  toasts :: "Toast list"
  console :: "(string \<times> js_error) list"

text \<open>
  The network, as \<open>refreshAnalysis\<close> sees it. \<open>fetch(url)\<close> either rejects or gives
  a response with its \<open>ok\<close> flag and \<open>status\<close>; \<open>response.json()\<close> either rejects
  (or gives a body on which the property read of the handler throws) or gives the body,
  typed as the state cell it is stored in. The two endpoints are functions of the symbol
  that ends their URL.
\<close>

datatype 'a response = Response (ok: bool) (status: nat) (json: "js_error + 'a")

datatype 'a fetched = Fetch_rejected js_error | Fetch_resolved "'a response"

record Network =
  market_data_endpoint :: "string \<Rightarrow> MarketData fetched"
  analysis_endpoint :: "string \<Rightarrow> AgentAnalysis list fetched"

text \<open>The decimal digits of a number, for the template string of the error message.\<close>

function decimal :: "nat \<Rightarrow> string" where
  "decimal n =
     (if n < 10 then [char_of (48 + n)]
      else decimal (n div 10) @ [char_of (48 + n mod 10)])"
  by pat_completeness auto
termination
  by (relation "measure id") auto

text \<open>
  \<open>const response = await fetch(url); if (!response.ok) throw new Error(...);
  const data = await response.json();\<close> -- the body it yields, or the exception.
\<close>

definition fetch_json :: "'a fetched \<Rightarrow> js_error + 'a" where
  "fetch_json f =
     (case f of
        Fetch_rejected e \<Rightarrow> Inl e
      | Fetch_resolved r \<Rightarrow>
          if \<not> ok r then Inl (Error (''HTTP error! status: '' @ decimal (status r)))
          else json r)"

text \<open>\<open>refreshAnalysis\<close> (lines 63-89).\<close>

definition refreshAnalysis_body :: "Network \<Rightarrow> AnalysisPage \<Rightarrow> AnalysisPage completion" where
  "refreshAnalysis_body net s =
     (case fetch_json (market_data_endpoint net (selectedCrypto s)) of
        Inl e \<Rightarrow> Throw e s
      | Inr data \<Rightarrow>
          (let s1 = s\<lparr>marketData := data\<rparr> in
           case fetch_json (analysis_endpoint net (selectedCrypto s1)) of
             Inl e \<Rightarrow> Throw e s1
           | Inr analysisData_agents \<Rightarrow> Normal (s1\<lparr>agents := analysisData_agents\<rparr>)))"

definition refresh_failed_toast :: Toast where
  "refresh_failed_toast =
     \<lparr>Toast.title = [CHR 0xE9, CHR 0x94, CHR 0x99, CHR 0xE8, CHR 0xAF, CHR 0xAF],
      description =
        [CHR 0xE6, CHR 0x9B, CHR 0xB4, CHR 0xE6, CHR 0x96, CHR 0xB0, CHR 0xE5, CHR 0xB8, CHR 0x82,
         CHR 0xE5, CHR 0x9C, CHR 0xBA, CHR 0xE6, CHR 0x95, CHR 0xB0, CHR 0xE6, CHR 0x8D, CHR 0xAE,
         CHR 0xE5, CHR 0xA4, CHR 0xB1, CHR 0xE8, CHR 0xB4, CHR 0xA5, CHR 0xEF, CHR 0xBC, CHR 0x8C,
         CHR 0xE8, CHR 0xAF, CHR 0xB7, CHR 0xE7, CHR 0xA8, CHR 0x8D, CHR 0xE5, CHR 0x90, CHR 0x8E,
         CHR 0xE9, CHR 0x87, CHR 0x8D, CHR 0xE8, CHR 0xAF, CHR 0x95],
      variant = Some ''destructive''\<rparr>"

definition refreshAnalysis_catch :: "js_error \<Rightarrow> AnalysisPage \<Rightarrow> AnalysisPage completion" where
  "refreshAnalysis_catch e s =
     Normal (s\<lparr>AnalysisPage.console :=
                  AnalysisPage.console s @ [(''Failed to refresh analysis:'', e)],
               AnalysisPage.toasts := AnalysisPage.toasts s @ [refresh_failed_toast]\<rparr>)"

definition refreshAnalysis_finally :: "AnalysisPage \<Rightarrow> AnalysisPage completion" where
  "refreshAnalysis_finally s = Normal (s\<lparr>AnalysisPage.loading := False\<rparr>)"

definition refreshAnalysis :: "Network \<Rightarrow> AnalysisPage \<Rightarrow> AnalysisPage completion" where
  "refreshAnalysis net s =
     try_catch_finally (refreshAnalysis_body net) refreshAnalysis_catch refreshAnalysis_finally
       (s\<lparr>AnalysisPage.loading := True\<rparr>)"

section \<open>BacktestPage.tsx\<close>

subsection \<open>Data\<close>

text \<open>\<open>interface TradeRecord\<close> (lines 7-13).\<close>

record TradeRecord =
  date :: string
  action :: string
  price :: real
  amount :: real
  "value" :: real

text \<open>The state object of \<open>useState({totalTrades: 0, profitableTrades: 0, totalReturn: 0})\<close>.\<close>

record Stats =
  totalTrades :: real
  profitableTrades :: real
  totalReturn :: real

text \<open>
  The component's state cells (lines 16-24), and the browser console as the list of the
  errors logged by \<open>console.error\<close>.
\<close>

record BacktestPage =
  startDate :: string
  endDate :: string
  loading :: bool
  results :: "TradeRecord list"
  stats :: Stats
  console :: "(string \<times> js_error) list"

definition initial_BacktestPage :: BacktestPage where
  "initial_BacktestPage =
     \<lparr>startDate = '''', endDate = '''', loading = False, results = [],
      stats = \<lparr>totalTrades = 0, profitableTrades = 0, totalReturn = 0\<rparr>,
      console = []\<rparr>"

text \<open>The two action labels of the simulated records, as UTF-8 (U+4E70 U+5165, U+5356 U+51FA).\<close>

definition buy_label :: string where
  "buy_label = [CHR 0xE4, CHR 0xB9, CHR 0xB0, CHR 0xE5, CHR 0x85, CHR 0xA5]"

definition sell_label :: string where
  "sell_label = [CHR 0xE5, CHR 0x8D, CHR 0x96, CHR 0xE5, CHR 0x87, CHR 0xBA]"

text \<open>\<open>sampleResults\<close> (lines 32-37).\<close>

definition sampleResults :: "TradeRecord list" where
  "sampleResults =
     [\<lparr>date = ''2024-01-01'', action = buy_label, price = 42150.23, amount = 0.5, value = 21075.115\<rparr>,
      \<lparr>date = ''2024-01-15'', action = sell_label, price = 43500.00, amount = 0.5, value = 21750.00\<rparr>,
      \<lparr>date = ''2024-02-01'', action = buy_label, price = 41800.00, amount = 0.6, value = 25080.00\<rparr>,
      \<lparr>date = ''2024-02-15'', action = sell_label, price = 44200.00, amount = 0.6, value = 26520.00\<rparr>]"

subsection \<open>\<open>runBacktest\<close> (lines 26-49)\<close>

text \<open>
  The body of the \<open>try\<close> block after the awaited promise \<open>p\<close>: a rejection is thrown
  at the \<open>await\<close>, before \<open>setResults\<close> and \<open>setStats\<close>.
\<close>

definition runBacktest_body :: "promise \<Rightarrow> BacktestPage \<Rightarrow> BacktestPage completion" where
  "runBacktest_body p s =
     (case p of
        Rejected e \<Rightarrow> Throw e s
      | Resolved \<Rightarrow>
          Normal (s\<lparr>results := sampleResults,
                    stats := \<lparr>totalTrades = 4, profitableTrades = 2, totalReturn = 8.5\<rparr>\<rparr>))"

definition runBacktest_catch :: "js_error \<Rightarrow> BacktestPage \<Rightarrow> BacktestPage completion" where
  "runBacktest_catch e s = Normal (s\<lparr>console := console s @ [(''Backtest failed:'', e)]\<rparr>)"

definition runBacktest_finally :: "BacktestPage \<Rightarrow> BacktestPage completion" where
  "runBacktest_finally s = Normal (s\<lparr>loading := False\<rparr>)"

text \<open>\<open>runBacktest\<close> with the outcome of its awaited promise as a parameter.\<close>

definition runBacktest_on :: "promise \<Rightarrow> BacktestPage \<Rightarrow> BacktestPage completion" where
  "runBacktest_on p s =
     try_catch_finally (runBacktest_body p) runBacktest_catch runBacktest_finally
       (s\<lparr>loading := True\<rparr>)"

text \<open>\<open>runBacktest\<close> as written: the awaited promise is the two-second timer.\<close>

definition runBacktest :: "BacktestPage \<Rightarrow> BacktestPage completion" where
  "runBacktest s = runBacktest_on (timer_promise 2000) s"

text \<open>The button that starts a run (line 78): \<open>disabled={loading || !startDate || !endDate}\<close>.\<close>

definition runBacktest_disabled :: "BacktestPage \<Rightarrow> bool" where
  "runBacktest_disabled s \<longleftrightarrow> loading s \<or> startDate s = [] \<or> endDate s = []"

section \<open>The notions the properties are stated with\<close>

subsection \<open>A TradeRecord as the object it is at run time\<close>

text \<open>
  The elements of \<open>results\<close> are plain JavaScript objects; what any consumer of a
  TradeRecord can read from one is the list of its properties, here in the order of the
  interface. Reading a property the object does not have gives no number.
\<close>

datatype js_value = JString string | JNumber real

datatype js_type = TString | TNumber

fun js_typeof :: "js_value \<Rightarrow> js_type" where
  "js_typeof (JString x) = TString"
| "js_typeof (JNumber x) = TNumber"

definition TradeRecord_object :: "TradeRecord \<Rightarrow> (string \<times> js_value) list" where
  "TradeRecord_object r =
     [(''date'', JString (date r)), (''action'', JString (action r)),
      (''price'', JNumber (price r)), (''amount'', JNumber (amount r)),
      (''value'', JNumber (value r))]"

definition property_types :: "(string \<times> js_value) list \<Rightarrow> (string \<times> js_type) list" where
  "property_types obj = map (\<lambda>(k, v). (k, js_typeof v)) obj"

definition number_property :: "(string \<times> js_value) list \<Rightarrow> string \<Rightarrow> real option" where
  "number_property obj k = (case map_of obj k of Some (JNumber x) \<Rightarrow> Some x | _ \<Rightarrow> None)"

definition has_properties :: "string list \<Rightarrow> (string \<times> js_value) list \<Rightarrow> bool" where
  "has_properties ks obj = list_all (\<lambda>k. map_of obj k \<noteq> None) ks"

text \<open>
  The accounting balance of a record, read on its properties: resulting cash plus
  resulting quantity times the closing price of the record's date (the price of the
  record: trades execute at the close) equals the resulting total equity. The three
  resulting figures are read under the names of the invariant
  \<open>cash_after + quantity_after * close(date) == total_equity\<close>; the balance needs them
  to be there.
\<close>

definition accounting_balance :: "(string \<times> js_value) list \<Rightarrow> bool" where
  "accounting_balance obj =
     (case (number_property obj ''cash_after'', number_property obj ''quantity_after'',
            number_property obj ''price'', number_property obj ''total_equity'') of
        (Some cash, Some quantity, Some close_price, Some equity) \<Rightarrow>
          cash + quantity * close_price = equity
      | _ \<Rightarrow> False)"

subsection \<open>The object literals of \<open>sampleResults\<close>\<close>

text \<open>
  The four elements of \<open>sampleResults\<close> as they are written (lines 33-36): object
  literals, each a list of properties.
\<close>

definition sampleResults_literals :: "(string \<times> js_value) list list" where
  "sampleResults_literals =
     [[(''date'', JString ''2024-01-01''), (''action'', JString buy_label),
       (''price'', JNumber 42150.23), (''amount'', JNumber 0.5), (''value'', JNumber 21075.115)],
      [(''date'', JString ''2024-01-15''), (''action'', JString sell_label),
       (''price'', JNumber 43500.00), (''amount'', JNumber 0.5), (''value'', JNumber 21750.00)],
      [(''date'', JString ''2024-02-01''), (''action'', JString buy_label),
       (''price'', JNumber 41800.00), (''amount'', JNumber 0.6), (''value'', JNumber 25080.00)],
      [(''date'', JString ''2024-02-15''), (''action'', JString sell_label),
       (''price'', JNumber 44200.00), (''amount'', JNumber 0.6), (''value'', JNumber 26520.00)]]"

text \<open>
  \<open>interface TradeRecord\<close> (lines 7-13) as a list of property names and types. An
  object literal is a TradeRecord when it has the properties of the interface with their
  types and no other property (the compiler refuses a literal with an excess property);
  \<open>as_TradeRecord\<close> then reads it as the record. Properties are taken in the order of
  the interface, which is the order the literals are written in.
\<close>

definition TradeRecord_interface :: "(string \<times> js_type) list" where
  "TradeRecord_interface =
     [(''date'', TString), (''action'', TString), (''price'', TNumber),
      (''amount'', TNumber), (''value'', TNumber)]"

definition string_property :: "(string \<times> js_value) list \<Rightarrow> string \<Rightarrow> string option" where
  "string_property obj k = (case map_of obj k of Some (JString x) \<Rightarrow> Some x | _ \<Rightarrow> None)"

definition as_TradeRecord :: "(string \<times> js_value) list \<Rightarrow> TradeRecord option" where
  "as_TradeRecord obj =
     (if property_types obj = TradeRecord_interface then
        (case string_property obj ''date'' of None \<Rightarrow> None | Some d \<Rightarrow>
         case string_property obj ''action'' of None \<Rightarrow> None | Some a \<Rightarrow>
         case number_property obj ''price'' of None \<Rightarrow> None | Some p \<Rightarrow>
         case number_property obj ''amount'' of None \<Rightarrow> None | Some q \<Rightarrow>
         case number_property obj ''value'' of None \<Rightarrow> None | Some v \<Rightarrow>
           Some \<lparr>date = d, action = a, price = p, amount = q, value = v\<rparr>)
      else None)"

text \<open>
  The resulting cash of a record is never negative: read on the record's properties,
  under the name of the invariant \<open>cash_after >= 0\<close>. It needs the cash to be there.
\<close>

definition cash_never_negative :: "(string \<times> js_value) list \<Rightarrow> bool" where
  "cash_never_negative obj =
     (case number_property obj ''cash_after'' of
        Some cash \<Rightarrow> 0 \<le> cash
      | None \<Rightarrow> False)"

text \<open>
  (final equity / initial cash) - 1, as a percentage, where the final equity is the total
  equity of the last record (the initial cash when there is no record). There is no such
  return when the last record has no total equity.
\<close>

definition return_from_equity :: "real \<Rightarrow> (string \<times> js_value) list list \<Rightarrow> real option" where
  "return_from_equity initial_cash objs =
     (case rev objs of
        [] \<Rightarrow> Some ((initial_cash / initial_cash - 1) * 100)
      | obj # _ \<Rightarrow>
          (case number_property obj ''total_equity'' of
             Some equity \<Rightarrow> Some ((equity / initial_cash - 1) * 100)
           | None \<Rightarrow> None))"

subsection \<open>The position a sequence of records implies\<close>

definition is_buy :: "TradeRecord \<Rightarrow> bool" where
  "is_buy r \<longleftrightarrow> action r = buy_label"

definition is_sell :: "TradeRecord \<Rightarrow> bool" where
  "is_sell r \<longleftrightarrow> action r = sell_label"

text \<open>A record that neither buys nor sells is a hold.\<close>

definition is_hold :: "TradeRecord \<Rightarrow> bool" where
  "is_hold r \<longleftrightarrow> \<not> is_buy r \<and> \<not> is_sell r"

text \<open>
  The position implied by a sequence of records, record after record from a zero
  position: a buy adds its quantity, a sell takes its quantity away.
\<close>

fun position_after :: "real \<Rightarrow> TradeRecord list \<Rightarrow> real" where
  "position_after held [] = held"
| "position_after held (r # rs) =
     position_after
       (if is_buy r then held + amount r else if is_sell r then held - amount r else held) rs"

definition implied_position :: "TradeRecord list \<Rightarrow> real" where
  "implied_position rs = position_after 0 rs"

subsection \<open>Summary statistics computed from the records\<close>

definition count_trades :: "TradeRecord list \<Rightarrow> nat" where
  "count_trades rs = length (filter (\<lambda>r. \<not> is_hold r) rs)"

text \<open>
  A position with its average cost basis. A buy raises the basis to the weighted
  average of the old basis and the buy price; a sell leaves the basis as it is.
\<close>

record Position =
  quantity :: real
  cost_basis :: real

definition flat :: Position where
  "flat = \<lparr>quantity = 0, cost_basis = 0\<rparr>"

definition execute :: "Position \<Rightarrow> TradeRecord \<Rightarrow> Position" where
  "execute pos r =
     (if is_buy r then
        \<lparr>quantity = quantity pos + amount r,
         cost_basis =
           (if quantity pos + amount r = 0 then 0
            else (quantity pos * cost_basis pos + amount r * price r)
                   / (quantity pos + amount r))\<rparr>
      else if is_sell r then pos\<lparr>quantity := quantity pos - amount r\<rparr>
      else pos)"

text \<open>
  The sell records whose realized proceeds (the trade value) exceed the cost basis of
  the quantity sold.
\<close>

fun count_profitable :: "Position \<Rightarrow> TradeRecord list \<Rightarrow> nat" where
  "count_profitable pos [] = 0"
| "count_profitable pos (r # rs) =
     (if is_sell r \<and> cost_basis pos * amount r < value r then 1 else 0)
       + count_profitable (execute pos r) rs"

subsection \<open>The order of dates\<close>

text \<open>
  A date is a string \<open>YYYY-MM-DD\<close>; two such dates are in calendar order exactly when
  the strings are in the order of \<open><\<close> on strings, which compares them character by
  character.
\<close>

fun date_less :: "string \<Rightarrow> string \<Rightarrow> bool" where
  "date_less [] [] = False"
| "date_less [] (y # ys) = True"
| "date_less (x # xs) [] = False"
| "date_less (x # xs) (y # ys) =
     ((of_char x :: nat) < of_char y \<or> (x = y \<and> date_less xs ys))"

text \<open>
  The requested range of a run: the days from the start date to the end date of the
  page, both included.
\<close>

definition in_requested_range :: "BacktestPage \<Rightarrow> string \<Rightarrow> bool" where
  "in_requested_range s d \<longleftrightarrow> \<not> date_less d (startDate s) \<and> \<not> date_less (endDate s) d"

text \<open>A page on which a run over January and February 2024 has been requested.\<close>

definition requested_2024 :: BacktestPage where
  "requested_2024 = initial_BacktestPage\<lparr>startDate := ''2024-01-01'', endDate := ''2024-03-01''\<rparr>"

section \<open>What the handlers compute\<close>

lemma runBacktest_on_Resolved:
  "runBacktest_on Resolved s =
     Normal (s\<lparr>loading := False, results := sampleResults,
               stats := \<lparr>totalTrades = 4, profitableTrades = 2, totalReturn = 8.5\<rparr>\<rparr>)"
  by (simp add: runBacktest_on_def try_catch_finally_def runBacktest_body_def
      runBacktest_finally_def)

lemma runBacktest_on_Rejected:
  "runBacktest_on (Rejected e) s =
     Normal (s\<lparr>loading := False, console := console s @ [(''Backtest failed:'', e)]\<rparr>)"
  by (simp add: runBacktest_on_def try_catch_finally_def runBacktest_body_def
      runBacktest_catch_def runBacktest_finally_def)

lemma runBacktest_eq:
  "runBacktest s =
     Normal (s\<lparr>loading := False, results := sampleResults,
               stats := \<lparr>totalTrades = 4, profitableTrades = 2, totalReturn = 8.5\<rparr>\<rparr>)"
  by (simp add: runBacktest_def timer_promise_def runBacktest_on_Resolved)

lemma results_runBacktest: "results (state_of (runBacktest s)) = sampleResults"
  by (simp add: runBacktest_eq)

lemma stats_runBacktest:
  "stats (state_of (runBacktest s)) =
     \<lparr>totalTrades = 4, profitableTrades = 2, totalReturn = 8.5\<rparr>"
  by (simp add: runBacktest_eq)

lemma runBacktest_on_loading: "\<not> BacktestPage.loading (state_of (runBacktest_on p s))"
  by (cases p) (simp_all add: runBacktest_on_Resolved runBacktest_on_Rejected)

lemma testConnection_on_eq:
  "testConnection_on p s =
     Normal (s\<lparr>ConfigPage.loading := False,
               ConfigPage.toasts := ConfigPage.toasts s @
                 [case p of Resolved \<Rightarrow> connection_ok_toast
                  | Rejected e \<Rightarrow> connection_failed_toast]\<rparr>)"
  by (cases p)
    (simp_all add: testConnection_on_def try_catch_finally_def testConnection_body_def
      emit_toast_def ConfigPage_finally_def)

lemma saveConfig_on_eq:
  "saveConfig_on p s =
     Normal (s\<lparr>ConfigPage.loading := False,
               ConfigPage.toasts := ConfigPage.toasts s @
                 [case p of Resolved \<Rightarrow> config_saved_toast
                  | Rejected e \<Rightarrow> config_failed_toast]\<rparr>)"
  by (cases p)
    (simp_all add: saveConfig_on_def try_catch_finally_def saveConfig_body_def
      emit_toast_def ConfigPage_finally_def)

lemma refreshAnalysis_loading:
  "\<not> AnalysisPage.loading (state_of (refreshAnalysis net s))"
  by (simp add: refreshAnalysis_def try_catch_finally_def refreshAnalysis_body_def
      refreshAnalysis_catch_def refreshAnalysis_finally_def Let_def split: sum.splits)

section \<open>The simulated records\<close>

lemmas sample_simps = sampleResults_def is_buy_def is_sell_def buy_label_def sell_label_def

lemma length_sampleResults: "length sampleResults = 4"
  by (simp add: sampleResults_def)

lemma all_le_4: "(\<forall>k\<le>4. P (k::nat)) \<longleftrightarrow> P 0 \<and> P 1 \<and> P 2 \<and> P 3 \<and> P 4"
proof
  assume "\<forall>k\<le>4. P k"
  then show "P 0 \<and> P 1 \<and> P 2 \<and> P 3 \<and> P 4" by simp
next
  assume h: "P 0 \<and> P 1 \<and> P 2 \<and> P 3 \<and> P 4"
  show "\<forall>k\<le>4. P k"
  proof (intro allI impI)
    fix k :: nat
    assume "k \<le> 4"
    then have "k = 0 \<or> k = 1 \<or> k = 2 \<or> k = 3 \<or> k = 4" by arith
    with h show "P k" by auto
  qed
qed

lemma all_less_4: "(\<forall>k<4. P (k::nat)) \<longleftrightarrow> P 0 \<and> P 1 \<and> P 2 \<and> P 3"
proof
  assume "\<forall>k<4. P k"
  then show "P 0 \<and> P 1 \<and> P 2 \<and> P 3" by simp
next
  assume h: "P 0 \<and> P 1 \<and> P 2 \<and> P 3"
  show "\<forall>k<4. P k"
  proof (intro allI impI)
    fix k :: nat
    assume "k < 4"
    then have "k = 0 \<or> k = 1 \<or> k = 2 \<or> k = 3" by arith
    with h show "P k" by auto
  qed
qed

lemma count_trades_sample: "count_trades sampleResults = 4"
  by (simp add: count_trades_def is_hold_def sample_simps)

lemma count_profitable_sample: "count_profitable flat sampleResults = 2"
  by (simp add: execute_def flat_def sample_simps)

lemma sample_position_nonneg:
  "\<forall>k\<le>length sampleResults. 0 \<le> implied_position (take k sampleResults)"
  unfolding length_sampleResults all_le_4
  by (simp add: implied_position_def sample_simps)

lemma sample_sells_close_position:
  "\<forall>k<length sampleResults. is_sell (sampleResults ! k) \<longrightarrow>
     amount (sampleResults ! k) = implied_position (take k sampleResults) \<and>
     implied_position (take (Suc k) sampleResults) = 0"
  unfolding length_sampleResults all_less_4
  by (simp add: implied_position_def sample_simps)

lemma literals_are_sampleResults:
  "map as_TradeRecord sampleResults_literals = map Some sampleResults"
  by (simp add: sampleResults_literals_def sampleResults_def as_TradeRecord_def
      property_types_def TradeRecord_interface_def string_property_def number_property_def)

lemma literals_property_types:
  "\<forall>obj \<in> set sampleResults_literals.
     property_types obj =
       [(''date'', TString), (''action'', TString), (''price'', TNumber),
        (''amount'', TNumber), (''value'', TNumber)]"
  by (simp add: sampleResults_literals_def property_types_def)

lemma literals_no_resulting_figures:
  "\<forall>obj \<in> set sampleResults_literals.
     map_of obj ''cash_after'' = None \<and> map_of obj ''quantity_after'' = None \<and>
     map_of obj ''total_equity'' = None"
  by (simp add: sampleResults_literals_def)

lemma literals_no_return: "return_from_equity c sampleResults_literals = None"
  by (simp add: return_from_equity_def sampleResults_literals_def number_property_def)

lemma requested_2024_enabled: "\<not> runBacktest_disabled requested_2024"
  by (simp add: requested_2024_def runBacktest_disabled_def initial_BacktestPage_def)

section \<open>The loading flag and the API keys\<close>

text \<open>
  C9. After every invocation of \<open>runBacktest\<close>, \<open>refreshAnalysis\<close>,
  \<open>testConnection\<close> or \<open>saveConfig\<close>, the loading flag of the page is false,
  whether the body of the \<open>try\<close> ran to its end or threw: whatever the awaited
  promise yields (\<open>p1\<close>, \<open>p3\<close>, \<open>p4\<close>), whatever the network answers (\<open>net\<close>) and
  whatever the state before, the \<open>finally\<close> branch resets the flag. The handlers as
  written (with their timers) are instances.
\<close>

theorem loading_reset_on_every_path:
  "\<not> BacktestPage.loading (state_of (runBacktest_on p1 s1)) \<and>
   \<not> BacktestPage.loading (state_of (runBacktest s1)) \<and>
   \<not> AnalysisPage.loading (state_of (refreshAnalysis net s2)) \<and>
   \<not> ConfigPage.loading (state_of (testConnection_on p3 s3)) \<and>
   \<not> ConfigPage.loading (state_of (testConnection s3)) \<and>
   \<not> ConfigPage.loading (state_of (saveConfig_on p4 s4)) \<and>
   \<not> ConfigPage.loading (state_of (saveConfig s4))"
  by (simp add: runBacktest_on_loading runBacktest_def refreshAnalysis_loading
      testConnection_on_eq testConnection_def saveConfig_on_eq saveConfig_def)

text \<open>
  An instance: a backtest whose awaited promise rejects while the flag is up, and a
  configuration save whose awaited promise rejects.
\<close>

theorem loading_reset_on_every_path_witness:
  "\<not> BacktestPage.loading
       (state_of (runBacktest_on (Rejected (Error ''timeout''))
          (initial_BacktestPage\<lparr>loading := True\<rparr>))) \<and>
   \<not> ConfigPage.loading
       (state_of (saveConfig_on (Rejected (Error ''timeout'')) initial_ConfigPage))"
  using loading_reset_on_every_path
    [of "Rejected (Error ''timeout'')" "initial_BacktestPage\<lparr>loading := True\<rparr>" _ _ _ _
      "Rejected (Error ''timeout'')" initial_ConfigPage]
  by simp

text \<open>
  C10. \<open>testConnection\<close> and \<open>saveConfig\<close> change nothing but the loading flag and
  the emitted toasts: the state they leave is the state before with the flag down and
  one toast more, so the API keys are as before. \<open>handleInputChange\<close> for a key \<open>k\<close>
  stores the typed value under \<open>k\<close> and leaves every other key \<open>k'\<close> as it was.
\<close>

theorem ConfigPage_frame:
  assumes "k' \<noteq> k"
  shows "testConnection_on p s =
           Normal (s\<lparr>ConfigPage.loading := False,
                     ConfigPage.toasts := ConfigPage.toasts s @
                       [case p of Resolved \<Rightarrow> connection_ok_toast
                        | Rejected e \<Rightarrow> connection_failed_toast]\<rparr>) \<and>
         saveConfig_on p s =
           Normal (s\<lparr>ConfigPage.loading := False,
                     ConfigPage.toasts := ConfigPage.toasts s @
                       [case p of Resolved \<Rightarrow> config_saved_toast
                        | Rejected e \<Rightarrow> config_failed_toast]\<rparr>) \<and>
         apiKeys (state_of (testConnection_on p s)) = apiKeys s \<and>
         apiKeys (state_of (saveConfig_on p s)) = apiKeys s \<and>
         apiKeys (state_of (testConnection s)) = apiKeys s \<and>
         apiKeys (state_of (saveConfig s)) = apiKeys s \<and>
         get_key k' (apiKeys (handleInputChange k v s)) = get_key k' (apiKeys s) \<and>
         get_key k (apiKeys (handleInputChange k v s)) = v"
proof -
  have frame: "get_key k' (set_key k v ks) = get_key k' ks" for ks
    using assms by (cases k; cases k') simp_all
  have hit: "get_key k (set_key k v ks) = v" for ks
    by (cases k) simp_all
  show ?thesis
    by (simp add: testConnection_on_eq saveConfig_on_eq testConnection_def saveConfig_def
        handleInputChange_def frame hit)
qed

text \<open>An instance: typing an OpenAI key keeps the Anthropic key; saving keeps all three.\<close>

theorem ConfigPage_frame_witness:
  "Key_anthropic \<noteq> Key_openai \<and>
   get_key Key_anthropic
     (apiKeys (handleInputChange Key_openai ''sk-1''
        (initial_ConfigPage\<lparr>apiKeys :=
           \<lparr>openai = ''a'', anthropic = ''b'', coinmarketcap = ''c''\<rparr>\<rparr>))) = ''b'' \<and>
   apiKeys (state_of (saveConfig
        (initial_ConfigPage\<lparr>apiKeys :=
           \<lparr>openai = ''a'', anthropic = ''b'', coinmarketcap = ''c''\<rparr>\<rparr>)))
     = \<lparr>openai = ''a'', anthropic = ''b'', coinmarketcap = ''c''\<rparr>"
proof -
  have h: "Key_anthropic \<noteq> Key_openai" by simp
  show ?thesis
    using h ConfigPage_frame [OF h, of Resolved
        "initial_ConfigPage\<lparr>apiKeys :=
           \<lparr>openai = ''a'', anthropic = ''b'', coinmarketcap = ''c''\<rparr>\<rparr>" "''sk-1''"]
    by (simp add: initial_ConfigPage_def)
qed

section \<open>The result of a backtest run\<close>

text \<open>
  C5. Running the same backtest twice with identical inputs gives identical results:
  two runs from page states with the same start and end date store the same sequence of
  TradeRecords and the same summary statistics, whatever else the states hold; and a
  second run from the state the first one left ends in that same state.
\<close>

theorem runBacktest_deterministic:
  assumes "startDate s1 = startDate s2" and "endDate s1 = endDate s2"
  shows "results (state_of (runBacktest s1)) = results (state_of (runBacktest s2)) \<and>
         stats (state_of (runBacktest s1)) = stats (state_of (runBacktest s2)) \<and>
         runBacktest (state_of (runBacktest s1)) = runBacktest s1"
  by (simp add: runBacktest_eq)

text \<open>An instance: a first run over January and February 2024, and the run repeated after it.\<close>

theorem runBacktest_deterministic_witness:
  "startDate (initial_BacktestPage\<lparr>startDate := ''2024-01-01'', endDate := ''2024-03-01''\<rparr>) =
     startDate (state_of (runBacktest
       (initial_BacktestPage\<lparr>startDate := ''2024-01-01'', endDate := ''2024-03-01''\<rparr>))) \<and>
   endDate (initial_BacktestPage\<lparr>startDate := ''2024-01-01'', endDate := ''2024-03-01''\<rparr>) =
     endDate (state_of (runBacktest
       (initial_BacktestPage\<lparr>startDate := ''2024-01-01'', endDate := ''2024-03-01''\<rparr>))) \<and>
   results (state_of (runBacktest
       (initial_BacktestPage\<lparr>startDate := ''2024-01-01'', endDate := ''2024-03-01''\<rparr>))) =
     results (state_of (runBacktest (state_of (runBacktest
       (initial_BacktestPage\<lparr>startDate := ''2024-01-01'', endDate := ''2024-03-01''\<rparr>)))))"
proof -
  let ?s = "initial_BacktestPage\<lparr>startDate := ''2024-01-01'', endDate := ''2024-03-01''\<rparr>"
  have a: "startDate ?s = startDate (state_of (runBacktest ?s))"
    by (simp add: runBacktest_eq)
  have b: "endDate ?s = endDate (state_of (runBacktest ?s))"
    by (simp add: runBacktest_eq)
  from runBacktest_deterministic [OF a b] a b show ?thesis by blast
qed

text \<open>
  C8. The output of \<open>runBacktest\<close> does not depend on the selected dates: two runs
  the button allows (not loading, both dates non-empty) with different start dates and
  different end dates store the same TradeRecords and the same statistics. The dates
  only enable the button; the run leaves them as they are.
\<close>

theorem runBacktest_ignores_dates:
  assumes "\<not> runBacktest_disabled s1" and "\<not> runBacktest_disabled s2"
    and "startDate s1 \<noteq> startDate s2" and "endDate s1 \<noteq> endDate s2"
  shows "results (state_of (runBacktest s1)) = results (state_of (runBacktest s2)) \<and>
         stats (state_of (runBacktest s1)) = stats (state_of (runBacktest s2)) \<and>
         startDate (state_of (runBacktest s1)) = startDate s1 \<and>
         endDate (state_of (runBacktest s1)) = endDate s1"
  by (simp add: runBacktest_eq)

text \<open>An instance: early 2024 against June 2023.\<close>

theorem runBacktest_ignores_dates_witness:
  "\<not> runBacktest_disabled
       (initial_BacktestPage\<lparr>startDate := ''2024-01-01'', endDate := ''2024-03-01''\<rparr>) \<and>
   \<not> runBacktest_disabled
       (initial_BacktestPage\<lparr>startDate := ''2023-06-01'', endDate := ''2023-06-30''\<rparr>) \<and>
   results (state_of (runBacktest
       (initial_BacktestPage\<lparr>startDate := ''2024-01-01'', endDate := ''2024-03-01''\<rparr>))) =
   results (state_of (runBacktest
       (initial_BacktestPage\<lparr>startDate := ''2023-06-01'', endDate := ''2023-06-30''\<rparr>))) \<and>
   stats (state_of (runBacktest
       (initial_BacktestPage\<lparr>startDate := ''2024-01-01'', endDate := ''2024-03-01''\<rparr>))) =
   stats (state_of (runBacktest
       (initial_BacktestPage\<lparr>startDate := ''2023-06-01'', endDate := ''2023-06-30''\<rparr>)))"
proof -
  let ?s1 = "initial_BacktestPage\<lparr>startDate := ''2024-01-01'', endDate := ''2024-03-01''\<rparr>"
  let ?s2 = "initial_BacktestPage\<lparr>startDate := ''2023-06-01'', endDate := ''2023-06-30''\<rparr>"
  have a: "\<not> runBacktest_disabled ?s1" and b: "\<not> runBacktest_disabled ?s2"
    by (simp_all add: runBacktest_disabled_def initial_BacktestPage_def)
  have c: "startDate ?s1 \<noteq> startDate ?s2" and d: "endDate ?s1 \<noteq> endDate ?s2"
    by simp_all
  from runBacktest_ignores_dates [OF a b c d] a b show ?thesis by blast
qed

text \<open>
  C7, as stated: the TradeRecord sequence is strictly increasing in date, reflecting
  that the engine processes the requested dates in increasing order. The dates of the
  records are not requested dates: a run the button allows over June 2023 stores four
  records, none of them dated within the requested range.
\<close>

theorem requested_dates_counterexample:
  "\<not> runBacktest_disabled
       (initial_BacktestPage\<lparr>startDate := ''2023-06-01'', endDate := ''2023-06-30''\<rparr>) \<and>
   length (results (state_of (runBacktest
       (initial_BacktestPage\<lparr>startDate := ''2023-06-01'', endDate := ''2023-06-30''\<rparr>)))) = 4 \<and>
   list_all
     (\<lambda>d. \<not> in_requested_range
        (initial_BacktestPage\<lparr>startDate := ''2023-06-01'', endDate := ''2023-06-30''\<rparr>) d)
     (map date (results (state_of (runBacktest
       (initial_BacktestPage\<lparr>startDate := ''2023-06-01'', endDate := ''2023-06-30''\<rparr>)))))"
  by (simp add: runBacktest_disabled_def initial_BacktestPage_def results_runBacktest
      sampleResults_def in_requested_range_def)

text \<open>
  C7, amended: the TradeRecord sequence of every run is strictly increasing in date,
  with no date twice. Its dates are the four dates of the simulated records, the same
  for every run; they are not taken from the requested range.
\<close>

theorem results_dates_increasing:
  "sorted_wrt date_less (map date (results (state_of (runBacktest s)))) \<and>
   distinct (map date (results (state_of (runBacktest s)))) \<and>
   map date (results (state_of (runBacktest s))) =
     [''2024-01-01'', ''2024-01-15'', ''2024-02-01'', ''2024-02-15'']"
  by (simp add: results_runBacktest sampleResults_def)

text \<open>An instance: the dates stored by the run over June 2023.\<close>

theorem results_dates_increasing_witness:
  "sorted_wrt date_less
     (map date (results (state_of (runBacktest
        (initial_BacktestPage\<lparr>startDate := ''2023-06-01'', endDate := ''2023-06-30''\<rparr>))))) \<and>
   hd (map date (results (state_of (runBacktest
        (initial_BacktestPage\<lparr>startDate := ''2023-06-01'', endDate := ''2023-06-30''\<rparr>)))))
     = ''2024-01-01''"
  using results_dates_increasing
    [of "initial_BacktestPage\<lparr>startDate := ''2023-06-01'', endDate := ''2023-06-30''\<rparr>"]
  by simp

section \<open>What a TradeRecord carries\<close>

text \<open>
  C1, as stated: for every TradeRecord of a run, resulting cash plus resulting quantity
  times the closing price equals the record's total equity. It fails on the first
  record of a first run: the record has a date, an action, a price, an amount and a
  value, and no resulting cash, resulting quantity or total equity to balance.
\<close>

theorem accounting_balance_counterexample:
  "\<not> accounting_balance
       (TradeRecord_object (results (state_of (runBacktest initial_BacktestPage)) ! 0))"
  by (simp add: results_runBacktest sampleResults_def accounting_balance_def
      number_property_def TradeRecord_object_def)

text \<open>
  C1, amended: for every TradeRecord a run produces, the balance the record does carry
  holds exactly -- its trade value is its price times its amount -- and the record has
  no resulting cash, resulting quantity or total equity.
\<close>

theorem TradeRecord_value_balance:
  "\<forall>r \<in> set (results (state_of (runBacktest s))).
     value r = price r * amount r \<and>
     number_property (TradeRecord_object r) ''cash_after'' = None \<and>
     number_property (TradeRecord_object r) ''quantity_after'' = None \<and>
     number_property (TradeRecord_object r) ''total_equity'' = None"
proof -
  have "\<forall>r \<in> set sampleResults. value r = price r * amount r"
    by (simp add: sampleResults_def)
  then show ?thesis
    by (simp add: results_runBacktest number_property_def TradeRecord_object_def)
qed

text \<open>An instance: the first record of a first run, 0.5 at 42150.23.\<close>

theorem TradeRecord_value_balance_witness:
  "value (results (state_of (runBacktest initial_BacktestPage)) ! 0) = 21075.115 \<and>
   price (results (state_of (runBacktest initial_BacktestPage)) ! 0)
     * amount (results (state_of (runBacktest initial_BacktestPage)) ! 0) = 21075.115"
proof -
  let ?rs = "results (state_of (runBacktest initial_BacktestPage))"
  have mem: "?rs ! 0 \<in> set ?rs"
    by (simp add: results_runBacktest sampleResults_def)
  have v: "value (?rs ! 0) = 21075.115"
    by (simp add: results_runBacktest sampleResults_def)
  from TradeRecord_value_balance [of initial_BacktestPage] mem
  have "value (?rs ! 0) = price (?rs ! 0) * amount (?rs ! 0)"
    by blast
  with v show ?thesis by simp
qed

text \<open>
  C2, as stated: every TradeRecord carries date, action, price, quantity, trade value,
  resulting cash, resulting quantity and resulting total equity. The first object a run
  stores (the first literal of \<open>sampleResults\<close>) has five properties, not these
  eight: the three resulting figures are not among them.
\<close>

theorem TradeRecord_fields_counterexample:
  "as_TradeRecord (sampleResults_literals ! 0) =
     Some (results (state_of (runBacktest requested_2024)) ! 0) \<and>
   \<not> has_properties
       [''date'', ''action'', ''price'', ''amount'', ''value'',
        ''cash_after'', ''quantity_after'', ''total_equity'']
       (sampleResults_literals ! 0) \<and>
   length (sampleResults_literals ! 0) = 5"
  by (simp add: results_runBacktest sampleResults_literals_def sampleResults_def
      as_TradeRecord_def property_types_def TradeRecord_interface_def string_property_def
      number_property_def has_properties_def)

text \<open>
  C2, amended: every TradeRecord a run produces carries exactly five fields: date (a
  string), action (a string), price, amount (the quantity traded) and value (the trade
  value), the last three numbers. It carries no resulting cash, resulting quantity or
  resulting total equity. Stated on the objects the run stores: the records in
  \<open>results\<close> are the object literals of \<open>sampleResults\<close>, read through the
  interface, and each literal has these five properties and none of the three.
\<close>

theorem TradeRecord_five_properties:
  "map as_TradeRecord sampleResults_literals = map Some (results (state_of (runBacktest s))) \<and>
   (\<forall>obj \<in> set sampleResults_literals.
      property_types obj =
        [(''date'', TString), (''action'', TString), (''price'', TNumber),
         (''amount'', TNumber), (''value'', TNumber)] \<and>
      map_of obj ''cash_after'' = None \<and> map_of obj ''quantity_after'' = None \<and>
      map_of obj ''total_equity'' = None)"
  using literals_property_types literals_no_resulting_figures
  by (simp add: results_runBacktest literals_are_sampleResults)

text \<open>An instance: the second literal, the sale of 2024-01-15, in the requested run.\<close>

theorem TradeRecord_five_properties_witness:
  "as_TradeRecord (sampleResults_literals ! 1) =
     Some (results (state_of (runBacktest requested_2024)) ! 1) \<and>
   property_types (sampleResults_literals ! 1) =
     [(''date'', TString), (''action'', TString), (''price'', TNumber),
      (''amount'', TNumber), (''value'', TNumber)] \<and>
   map_of (sampleResults_literals ! 1) ''total_equity'' = None"
proof -
  note t = TradeRecord_five_properties [of requested_2024]
  have len: "length sampleResults_literals = 4"
    by (simp add: sampleResults_literals_def)
  have mem: "sampleResults_literals ! 1 \<in> set sampleResults_literals"
    using len by simp
  from t have "map as_TradeRecord sampleResults_literals ! 1 =
      map Some (results (state_of (runBacktest requested_2024))) ! 1"
    by simp
  then have a: "as_TradeRecord (sampleResults_literals ! 1) =
     Some (results (state_of (runBacktest requested_2024)) ! 1)"
    using len by (simp add: results_runBacktest length_sampleResults)
  from t mem have "property_types (sampleResults_literals ! 1) =
     [(''date'', TString), (''action'', TString), (''price'', TNumber),
      (''amount'', TNumber), (''value'', TNumber)] \<and>
     map_of (sampleResults_literals ! 1) ''total_equity'' = None"
    by blast
  with a show ?thesis by blast
qed

section \<open>The summary statistics\<close>

text \<open>
  C3, as stated: total return equals (final equity / initial cash) - 1 as a
  percentage. The requested run stores the total return 8.5; its records are the four
  literals of \<open>sampleResults\<close>, the last of which has no total equity, so that for no
  initial cash is 8.5 the return computed from the final equity.
\<close>

theorem totalReturn_counterexample:
  "\<not> runBacktest_disabled requested_2024 \<and>
   map as_TradeRecord sampleResults_literals =
     map Some (results (state_of (runBacktest requested_2024))) \<and>
   \<not> (\<exists>c. return_from_equity c sampleResults_literals =
          Some (totalReturn (stats (state_of (runBacktest requested_2024)))))"
  by (simp add: requested_2024_enabled results_runBacktest literals_are_sampleResults
      literals_no_return)

text \<open>
  C3, amended: for every run, total trades (4) equals the number of non-hold
  TradeRecords and profitable trades (2) equals the number of sell records whose
  proceeds exceed the cost basis of the quantity sold. Total return is the fixed figure
  8.5, the same for every run: it is not computed from a final equity and an initial
  cash, of which the records hold none.
\<close>

theorem runBacktest_stats:
  "totalTrades (stats (state_of (runBacktest s))) =
     real (count_trades (results (state_of (runBacktest s)))) \<and>
   profitableTrades (stats (state_of (runBacktest s))) =
     real (count_profitable flat (results (state_of (runBacktest s)))) \<and>
   totalReturn (stats (state_of (runBacktest s))) = 8.5 \<and>
   map as_TradeRecord sampleResults_literals = map Some (results (state_of (runBacktest s))) \<and>
   return_from_equity c sampleResults_literals = None"
  by (simp add: results_runBacktest stats_runBacktest count_trades_sample
      count_profitable_sample literals_are_sampleResults literals_no_return)

text \<open>An instance: the counts and the total return of the requested run.\<close>

theorem runBacktest_stats_witness:
  "count_trades (results (state_of (runBacktest requested_2024))) = 4 \<and>
   totalTrades (stats (state_of (runBacktest requested_2024))) = 4 \<and>
   count_profitable flat (results (state_of (runBacktest requested_2024))) = 2 \<and>
   profitableTrades (stats (state_of (runBacktest requested_2024))) = 2 \<and>
   totalReturn (stats (state_of (runBacktest requested_2024))) = 8.5"
  using runBacktest_stats [of requested_2024]
  by (simp add: results_runBacktest count_trades_sample count_profitable_sample)

section \<open>Failure of a run\<close>

text \<open>
  C4, as stated: a run for a date range with no market data fails, before any
  TradeRecord is produced. A run whose end date lies before its start date asks for a
  range that holds no day at all, so no market data can be there; yet the button
  allows it, and it completes normally and stores four TradeRecords.
\<close>

theorem runBacktest_empty_range_counterexample:
  "\<not> runBacktest_disabled
       (initial_BacktestPage\<lparr>startDate := ''2024-02-15'', endDate := ''2024-01-01''\<rparr>) \<and>
   date_less
     (endDate (initial_BacktestPage\<lparr>startDate := ''2024-02-15'', endDate := ''2024-01-01''\<rparr>))
     (startDate (initial_BacktestPage\<lparr>startDate := ''2024-02-15'', endDate := ''2024-01-01''\<rparr>)) \<and>
   is_Normal (runBacktest
     (initial_BacktestPage\<lparr>startDate := ''2024-02-15'', endDate := ''2024-01-01''\<rparr>)) \<and>
   length (results (state_of (runBacktest
     (initial_BacktestPage\<lparr>startDate := ''2024-02-15'', endDate := ''2024-01-01''\<rparr>)))) = 4"
  by (simp add: runBacktest_eq sampleResults_def runBacktest_disabled_def
      initial_BacktestPage_def)

text \<open>
  C4, amended: \<open>runBacktest\<close> consults no market data and has no failure result. As
  written, every invocation completes normally and stores the simulated TradeRecords,
  whatever the date range. Were its awaited promise to reject with an error \<open>e\<close>, the
  error is caught and logged to the console, the invocation still completes normally
  (nothing is reported to the caller), it produces no TradeRecord, and the results and
  statistics keep the values they had before the invocation.
\<close>

theorem runBacktest_never_fails:
  "is_Normal (runBacktest s) \<and>
   results (state_of (runBacktest s)) = sampleResults \<and>
   is_Normal (runBacktest_on (Rejected e) s) \<and>
   results (state_of (runBacktest_on (Rejected e) s)) = results s \<and>
   stats (state_of (runBacktest_on (Rejected e) s)) = stats s \<and>
   console (state_of (runBacktest_on (Rejected e) s)) = console s @ [(''Backtest failed:'', e)]"
  by (simp add: runBacktest_eq runBacktest_on_Rejected)

text \<open>
  An instance: after a first run, an invocation whose awaited promise rejects leaves the
  four records of the first run in place.
\<close>

theorem runBacktest_never_fails_witness:
  "is_Normal (runBacktest_on (Rejected (Error ''no data''))
      (state_of (runBacktest initial_BacktestPage))) \<and>
   length (results (state_of (runBacktest_on (Rejected (Error ''no data''))
      (state_of (runBacktest initial_BacktestPage))))) = 4"
  using runBacktest_never_fails
      [of "state_of (runBacktest initial_BacktestPage)" "Error ''no data''"]
    runBacktest_never_fails [of initial_BacktestPage]
  by (simp add: sampleResults_def)

section \<open>Position and cash after each record\<close>

text \<open>
  C6, as stated: the resulting cash after each record is never negative. The first
  record the requested run stores is the first literal of \<open>sampleResults\<close>, which
  has no resulting cash.
\<close>

theorem resulting_cash_counterexample:
  "\<not> runBacktest_disabled requested_2024 \<and>
   as_TradeRecord (sampleResults_literals ! 0) =
     Some (results (state_of (runBacktest requested_2024)) ! 0) \<and>
   \<not> cash_never_negative (sampleResults_literals ! 0)"
  by (simp add: requested_2024_enabled results_runBacktest sampleResults_literals_def
      sampleResults_def as_TradeRecord_def property_types_def TradeRecord_interface_def
      string_property_def number_property_def cash_never_negative_def)

text \<open>
  C6, amended: in every run, the cumulative position implied by the TradeRecord
  sequence (buy quantities added and sell quantities taken away, up to each record) is
  never negative; every sell record sells exactly the quantity held before it, so that
  no sell exceeds the holding and the position after it is exactly 0. The records carry
  no resulting cash.
\<close>

theorem implied_position_never_negative:
  fixes s :: BacktestPage
  defines "rs \<equiv> results (state_of (runBacktest s))"
  shows "(\<forall>k\<le>length rs. 0 \<le> implied_position (take k rs)) \<and>
         (\<forall>k<length rs. is_sell (rs ! k) \<longrightarrow>
            amount (rs ! k) = implied_position (take k rs) \<and>
            implied_position (take (Suc k) rs) = 0) \<and>
         map as_TradeRecord sampleResults_literals = map Some rs \<and>
         (\<forall>obj \<in> set sampleResults_literals. map_of obj ''cash_after'' = None)"
  unfolding rs_def results_runBacktest
  using sample_position_nonneg sample_sells_close_position literals_are_sampleResults
    literals_no_resulting_figures
  by blast

text \<open>
  An instance: the second record of the requested run sells the 0.5 held and leaves 0;
  the position after the third record is 0.6.
\<close>

theorem implied_position_never_negative_witness:
  "is_sell (results (state_of (runBacktest requested_2024)) ! 1) \<and>
   amount (results (state_of (runBacktest requested_2024)) ! 1) =
     implied_position (take 1 (results (state_of (runBacktest requested_2024)))) \<and>
   implied_position (take 2 (results (state_of (runBacktest requested_2024)))) = 0 \<and>
   0 \<le> implied_position (take 3 (results (state_of (runBacktest requested_2024))))"
proof -
  let ?rs = "results (state_of (runBacktest requested_2024))"
  note t = implied_position_never_negative [of requested_2024]
  have len: "length ?rs = 4"
    by (simp add: results_runBacktest sampleResults_def)
  have sell: "is_sell (?rs ! 1)"
    by (simp add: results_runBacktest sample_simps)
  from t len have "is_sell (?rs ! 1) \<longrightarrow>
            amount (?rs ! 1) = implied_position (take 1 ?rs) \<and>
            implied_position (take (Suc 1) ?rs) = 0"
    by simp
  with sell have a: "amount (?rs ! 1) = implied_position (take 1 ?rs)"
    and b: "implied_position (take 2 ?rs) = 0"
    by (simp_all add: numeral_2_eq_2)
  from t len have "0 \<le> implied_position (take 3 ?rs)"
    by simp
  with sell a b show ?thesis by blast
qed

end
